theory Spec2Isabelle
  imports Main
begin

section \<open>Repository initialisation of a node (internal/app/go-filecoin/node/init.go)\<close>

text \<open>
  The file under verification is written against interfaces: a repository, a key store, a
  wallet and a genesis function. The functions of \<^verbatim>\<open>init.go\<close> are embedded as they are
  written, with explicit state passing: every function takes the part of the repository it
  mutates and returns it next to its result, so the state a failed run leaves behind can be
  read off. An error return of the source is a value of type \<open>err\<close>.
\<close>

subsection \<open>Errors\<close>

text \<open>
  \<^verbatim>\<open>errors.Wrap(err, msg)\<close> puts a message in front of a cause. \<open>Fail\<close> is an error that a
  collaborator reports.
\<close>

datatype err = Fail string | Wrap err string

subsection \<open>Data\<close>

text \<open>
  Key types of the peer-to-peer library's \<^verbatim>\<open>GenerateKeyPair\<close>; the source names only
  \<^verbatim>\<open>crypto.RSA\<close>.
\<close>

datatype KeyType = RSA | Ed25519 | Secp256k1 | ECDSA

text \<open>\<^verbatim>\<open>const defaultPeerKeyBits = 2048\<close>\<close>

definition defaultPeerKeyBits :: nat where
  "defaultPeerKeyBits = 2048"

text \<open>
  \<^verbatim>\<open>initCfg\<close>: a peer key (an interface value, nil when unset), a default key (a pointer,
  nil when unset) and the keys to import. Import records are taken to be non-nil pointers.
\<close>

record ('pk, 'ki) initCfg =
  peerKey :: "'pk option"
  defaultKey :: "'ki option"
  initImports :: "'ki list"

type_synonym ('pk, 'ki) InitOpt = "('pk, 'ki) initCfg \<Rightarrow> ('pk, 'ki) initCfg"

text \<open>\<^verbatim>\<open>new(initCfg)\<close>: the zero value.\<close>

definition new_initCfg :: "('pk, 'ki) initCfg" where
  "new_initCfg = \<lparr>peerKey = None, defaultKey = None, initImports = []\<rparr>"

definition PeerKeyOpt :: "'pk option \<Rightarrow> ('pk, 'ki) InitOpt" where
  "PeerKeyOpt k = (\<lambda>opts. opts\<lparr>peerKey := k\<rparr>)"

definition DefaultKeyOpt :: "'ki option \<Rightarrow> ('pk, 'ki) InitOpt" where
  "DefaultKeyOpt ki = (\<lambda>opts. opts\<lparr>defaultKey := ki\<rparr>)"

definition ImportKeyOpt :: "'ki \<Rightarrow> ('pk, 'ki) InitOpt" where
  "ImportKeyOpt ki = (\<lambda>opts. opts\<lparr>initImports := initImports opts @ [ki]\<rparr>)"

text \<open>\<^verbatim>\<open>for _, o := range opts { o(cfg) }\<close>\<close>

definition applyOpts :: "('pk, 'ki) InitOpt list \<Rightarrow> ('pk, 'ki) initCfg" where
  "applyOpts opts = foldl (\<lambda>cfg opt. opt cfg) new_initCfg opts"

text \<open>
  The configuration object: the field \<^verbatim>\<open>Wallet.DefaultAddress\<close> that \<^verbatim>\<open>Init\<close> assigns,
  and \<open>Others\<close> for every other field of the object.
\<close>

record 'a WalletConfig =
  DefaultAddress :: 'a

record ('a, 'o) Config =
  Wallet :: "'a WalletConfig"
  Others :: 'o

text \<open>
  The repository as \<^verbatim>\<open>Init\<close> uses it: the chain datastore, the key store (alias to key),
  the wallet datastore (the key records it holds, in insertion order), the configuration
  object in memory (\<^verbatim>\<open>r.Config()\<close> returns a pointer to it) and the configuration as it
  was last persisted.
\<close>

record ('ds, 'pk, 'ki, 'a, 'o) Repo =
  Datastore :: 'ds
  Keystore :: "string \<rightharpoonup> 'pk"
  WalletDatastore :: "'ki list"
  Config :: "('a, 'o) Config"
  PersistedConfig :: "('a, 'o) Config"

text \<open>
  \<^verbatim>\<open>consensus.GenesisInitFunc\<close>: computes the genesis block over the storage views of the
  chain datastore, writing into it; it reports an error or the block.
\<close>

type_synonym ('ds, 'g) GenesisInitFunc = "'ds \<Rightarrow> (err + 'g) \<times> 'ds"

text \<open>
  What the source cannot decide of its collaborators in one run: the outcome of persisting
  the genesis block, of generating a peer key pair for a key type and a size (the public
  key is discarded by the caller), of a key store write, of opening the wallet backend, of
  the wallet generating key material, of deriving the address of a key record, and of
  writing the configuration.
\<close>

record ('ds, 'g, 'pk, 'ki, 'a, 'o) Env =
  PutGenesis :: "'g \<Rightarrow> 'ds \<Rightarrow> err + 'ds"
  GenerateKeyPair :: "KeyType \<Rightarrow> nat \<Rightarrow> err + 'pk"
  KeystorePutErr :: "string \<Rightarrow> 'pk \<Rightarrow> err option"
  NewDSBackendErr :: "'ki list \<Rightarrow> err option"
  NewKey :: "err + 'ki"
  Address :: "'ki \<Rightarrow> err + 'a"
  ReplaceConfigErr :: "('a, 'o) Config \<Rightarrow> err option"

subsection \<open>Collaborators\<close>

text \<open>
  Modelled from the spec: \<^verbatim>\<open>chain.Init\<close> is not in the given source. It installs genesis
  chain state and returns a reference to it, or propagates the genesis function's error, or
  a storage-persistence error, wrapped (the spec does not give the wrapping message). It
  writes to the chain datastore only.
\<close>

definition chain_Init ::
  "('ds, 'g, 'pk, 'ki, 'a, 'o) Env \<Rightarrow> ('ds, 'pk, 'ki, 'a, 'o) Repo \<Rightarrow> ('ds, 'g) GenesisInitFunc
     \<Rightarrow> (err + 'g) \<times> ('ds, 'pk, 'ki, 'a, 'o) Repo" where
  "chain_Init E r gen =
     (case gen (Datastore r) of
        (Inl e, ds1) \<Rightarrow> (Inl e, r\<lparr>Datastore := ds1\<rparr>)
      | (Inr g, ds1) \<Rightarrow>
          (case PutGenesis E g ds1 of
             Inl e \<Rightarrow> (Inl (Wrap e ''failed to put genesis block in chain store''),
                       r\<lparr>Datastore := ds1\<rparr>)
           | Inr ds2 \<Rightarrow> (Inr g, r\<lparr>Datastore := ds2\<rparr>)))"

text \<open>
  Modelled from the spec: the key store's \<^verbatim>\<open>Put\<close> is not in the given source. A write
  stores the key under the alias and overwrites what was there; it may report an error, and
  then nothing is written.
\<close>

definition Keystore_Put ::
  "('ds, 'g, 'pk, 'ki, 'a, 'o) Env \<Rightarrow> (string \<rightharpoonup> 'pk) \<Rightarrow> string \<Rightarrow> 'pk
     \<Rightarrow> err option \<times> (string \<rightharpoonup> 'pk)" where
  "Keystore_Put E store name k =
     (case KeystorePutErr E name k of
        Some e \<Rightarrow> (Some e, store)
      | None \<Rightarrow> (None, store(name \<mapsto> k)))"

text \<open>
  Modelled from the spec: \<^verbatim>\<open>wallet.NewDSBackend\<close> is not in the given source. The backend
  is bound to the repository's wallet datastore, an insertion-ordered collection of key
  records; opening it may fail.
\<close>

definition wallet_NewDSBackend ::
  "('ds, 'g, 'pk, 'ki, 'a, 'o) Env \<Rightarrow> 'ki list \<Rightarrow> err + 'ki list" where
  "wallet_NewDSBackend E ds = (case NewDSBackendErr E ds of Some e \<Rightarrow> Inl e | None \<Rightarrow> Inr ds)"

text \<open>
  Modelled from the spec: \<^verbatim>\<open>wallet.New\<close> is not in the given source. The wallet over a
  backend holds the records of the backend.
\<close>

definition wallet_New :: "'ki list \<Rightarrow> 'ki list" where
  "wallet_New backend = backend"

text \<open>
  Modelled from the spec: \<^verbatim>\<open>Wallet.Import\<close> is not in the given source. The wallet
  validates the record and derives its address, then persists it: a record whose address
  cannot be derived is refused and nothing is written; otherwise the record is added after
  the records the wallet holds.
\<close>

definition Wallet_Import ::
  "('ds, 'g, 'pk, 'ki, 'a, 'o) Env \<Rightarrow> 'ki list \<Rightarrow> 'ki \<Rightarrow> (err + 'a) \<times> 'ki list" where
  "Wallet_Import E w ki =
     (case Address E ki of
        Inl e \<Rightarrow> (Inl e, w)
      | Inr a \<Rightarrow> (Inr a, w @ [ki]))"

text \<open>
  Modelled from the spec: \<^verbatim>\<open>Wallet.NewKeyInfo\<close> is not in the given source. The wallet
  generates a new key record, assigns its address and persists it.
\<close>

definition Wallet_NewKeyInfo ::
  "('ds, 'g, 'pk, 'ki, 'a, 'o) Env \<Rightarrow> 'ki list \<Rightarrow> (err + 'ki) \<times> 'ki list" where
  "Wallet_NewKeyInfo E w =
     (case NewKey E of
        Inl e \<Rightarrow> (Inl e, w)
      | Inr ki \<Rightarrow>
          (case Address E ki of
             Inl e \<Rightarrow> (Inl e, w)
           | Inr a \<Rightarrow> (Inr ki, w @ [ki])))"

text \<open>
  Modelled from the spec: \<^verbatim>\<open>Repo.ReplaceConfig\<close> is not in the given source. It persists
  the whole configuration object it is given, which becomes the repository's configuration;
  when the write fails nothing is persisted.
\<close>

definition Repo_ReplaceConfig ::
  "('ds, 'g, 'pk, 'ki, 'a, 'o) Env \<Rightarrow> ('ds, 'pk, 'ki, 'a, 'o) Repo \<Rightarrow> ('a, 'o) Config
     \<Rightarrow> err option \<times> ('ds, 'pk, 'ki, 'a, 'o) Repo" where
  "Repo_ReplaceConfig E r cfg =
     (case ReplaceConfigErr E cfg of
        Some e \<Rightarrow> (Some e, r)
      | None \<Rightarrow> (None, r\<lparr>Config := cfg, PersistedConfig := cfg\<rparr>))"

subsection \<open>The functions of init.go\<close>

text \<open>\<^verbatim>\<open>func initPeerKey(store keystore.Keystore, key crypto.PrivKey) error\<close>\<close>

definition initPeerKey ::
  "('ds, 'g, 'pk, 'ki, 'a, 'o) Env \<Rightarrow> (string \<rightharpoonup> 'pk) \<Rightarrow> 'pk option
     \<Rightarrow> err option \<times> (string \<rightharpoonup> 'pk)" where
  "initPeerKey E store key =
     (case (case key of
              None \<Rightarrow> GenerateKeyPair E RSA defaultPeerKeyBits
            | Some k \<Rightarrow> Inr k) of
        Inl e \<Rightarrow> (Some (Wrap e ''failed to create peer key''), store)
      | Inr k \<Rightarrow>
          (case Keystore_Put E store ''self'' k of
             (Some e, store') \<Rightarrow> (Some (Wrap e ''failed to store private key''), store')
           | (None, store') \<Rightarrow> (None, store')))"

text \<open>
  \<^verbatim>\<open>func initDefaultKey(w *wallet.Wallet, key *crypto2.KeyInfo) (*crypto2.KeyInfo, error)\<close>
\<close>

definition initDefaultKey ::
  "('ds, 'g, 'pk, 'ki, 'a, 'o) Env \<Rightarrow> 'ki list \<Rightarrow> 'ki option \<Rightarrow> (err + 'ki) \<times> 'ki list" where
  "initDefaultKey E w key =
     (case key of
        None \<Rightarrow>
          (case Wallet_NewKeyInfo E w of
             (Inl e, w') \<Rightarrow> (Inl (Wrap e ''failed to create default key''), w')
           | (Inr k, w') \<Rightarrow> (Inr k, w'))
      | Some k \<Rightarrow>
          (case Wallet_Import E w k of
             (Inl e, w') \<Rightarrow> (Inl (Wrap e ''failed to import default key''), w')
           | (Inr _, w') \<Rightarrow> (Inr k, w')))"

text \<open>\<^verbatim>\<open>func importInitKeys(w *wallet.Wallet, importKeys []*crypto2.KeyInfo) error\<close>\<close>

fun importInitKeys ::
  "('ds, 'g, 'pk, 'ki, 'a, 'o) Env \<Rightarrow> 'ki list \<Rightarrow> 'ki list \<Rightarrow> err option \<times> 'ki list" where
  "importInitKeys E w [] = (None, w)"
| "importInitKeys E w (ki # importKeys) =
     (case Wallet_Import E w ki of
        (Inl e, w') \<Rightarrow> (Some e, w')
      | (Inr _, w') \<Rightarrow> importInitKeys E w' importKeys)"

text \<open>
  \<^verbatim>\<open>func Init(ctx, r repo.Repo, gen consensus.GenesisInitFunc, opts ...InitOpt) error\<close>.
  The result is the error (\<open>None\<close> for \<^verbatim>\<open>nil\<close>) and the repository as the call leaves it.
\<close>

definition Init ::
  "('ds, 'g, 'pk, 'ki, 'a, 'o) Env \<Rightarrow> ('ds, 'pk, 'ki, 'a, 'o) Repo \<Rightarrow> ('ds, 'g) GenesisInitFunc
     \<Rightarrow> ('pk, 'ki) InitOpt list \<Rightarrow> err option \<times> ('ds, 'pk, 'ki, 'a, 'o) Repo" where
  "Init E r gen opts =
     (let cfg = applyOpts opts in
      case chain_Init E r gen of
        (Inl e, r1) \<Rightarrow> (Some (Wrap e ''Could not Init Node''), r1)
      | (Inr _, r1) \<Rightarrow>
      (case initPeerKey E (Keystore r1) (peerKey cfg) of
        (Some e, ks) \<Rightarrow> (Some e, r1\<lparr>Keystore := ks\<rparr>)
      | (None, ks) \<Rightarrow>
      (let r2 = r1\<lparr>Keystore := ks\<rparr> in
       case wallet_NewDSBackend E (WalletDatastore r2) of
        Inl e \<Rightarrow> (Some (Wrap e ''failed to open wallet datastore''), r2)
      | Inr backend \<Rightarrow>
      (let w = wallet_New backend in
       case initDefaultKey E w (defaultKey cfg) of
        (Inl e, w1) \<Rightarrow> (Some e, r2\<lparr>WalletDatastore := w1\<rparr>)
      | (Inr dk, w1) \<Rightarrow>
      (case importInitKeys E w1 (initImports cfg) of
        (Some e, w2) \<Rightarrow> (Some e, r2\<lparr>WalletDatastore := w2\<rparr>)
      | (None, w2) \<Rightarrow>
      (let r3 = r2\<lparr>WalletDatastore := w2\<rparr> in
       case Address E dk of
        Inl e \<Rightarrow> (Some (Wrap e ''failed to extract address from default key''), r3)
      | Inr defaultAddress \<Rightarrow>
      (let r4 = r3\<lparr>Config := (Config r3)\<lparr>Wallet := (Wallet (Config r3))\<lparr>DefaultAddress := defaultAddress\<rparr>\<rparr>\<rparr> in
       case Repo_ReplaceConfig E r4 (Config r4) of
        (Some e, r5) \<Rightarrow> (Some (Wrap e ''failed to write config''), r5)
      | (None, r5) \<Rightarrow> (None, r5))))))))"

subsection \<open>Step messages\<close>



subsection \<open>A sample repository and sample collaborators\<close>

text \<open>
  Concrete inputs for running the definitions: key records, peer keys and addresses are
  numbers; the key record \<open>0\<close> is malformed (its address cannot be derived); the key
  generator supports RSA at 2048 bits only; the configuration in memory was edited after
  it was last persisted.
\<close>

definition sample_env :: "(nat list, nat, nat, nat, nat, string) Env" where
  "sample_env =
     \<lparr>PutGenesis = (\<lambda>g ds. Inr (g # ds)),
      GenerateKeyPair =
        (\<lambda>t bits. if t = RSA \<and> bits = 2048 then Inr 7 else Inl (Fail ''unsupported key'')),
      KeystorePutErr = (\<lambda>name k. None),
      NewDSBackendErr = (\<lambda>ds. None),
      NewKey = Inr 5,
      Address = (\<lambda>ki. if ki = 0 then Inl (Fail ''malformed key'') else Inr (ki + 100)),
      ReplaceConfigErr = (\<lambda>cfg. None)\<rparr>"

definition sample_repo :: "(nat list, nat, nat, nat, string) Repo" where
  "sample_repo =
     \<lparr>Datastore = [],
      Keystore = Map.empty,
      WalletDatastore = [],
      Config = \<lparr>Wallet = \<lparr>DefaultAddress = 0\<rparr>, Others = ''edited''\<rparr>,
      PersistedConfig = \<lparr>Wallet = \<lparr>DefaultAddress = 0\<rparr>, Others = ''on disk''\<rparr>\<rparr>"

definition sample_gen :: "(nat list, nat) GenesisInitFunc" where
  "sample_gen = (\<lambda>ds. (Inr 1, ds))"

definition failing_gen :: "(nat list, nat) GenesisInitFunc" where
  "failing_gen = (\<lambda>ds. (Inl (Fail ''no genesis''), 9 # ds))"

lemmas sample_defs =
  sample_env_def sample_repo_def sample_gen_def failing_gen_def

lemmas run_defs =
  Init_def applyOpts_def new_initCfg_def PeerKeyOpt_def DefaultKeyOpt_def ImportKeyOpt_def
  chain_Init_def initPeerKey_def defaultPeerKeyBits_def Keystore_Put_def
  wallet_NewDSBackend_def wallet_New_def initDefaultKey_def Wallet_NewKeyInfo_def
  Wallet_Import_def Repo_ReplaceConfig_def

section \<open>Properties of the stages\<close>

lemma chain_Init_frame:
  assumes "chain_Init E r gen = (res, r1)"
  shows "r1 = r\<lparr>Datastore := Datastore r1\<rparr>"
  using assms by (auto simp: chain_Init_def split: prod.splits sum.splits)

lemma chain_Init_Inl:
  assumes "fst (gen (Datastore r)) = Inl e"
  shows "chain_Init E r gen = (Inl e, r\<lparr>Datastore := snd (gen (Datastore r))\<rparr>)"
  using assms by (cases "gen (Datastore r)") (simp add: chain_Init_def)

lemma chain_Init_Inr:
  assumes "gen (Datastore r) = (Inr g, ds1)" and "PutGenesis E g ds1 = Inr ds2"
  shows "chain_Init E r gen = (Inr g, r\<lparr>Datastore := ds2\<rparr>)"
  using assms by (simp add: chain_Init_def)

lemma Wallet_Import_Inr:
  "Address E ki = Inr a \<Longrightarrow> Wallet_Import E w ki = (Inr a, w @ [ki])"
  by (simp add: Wallet_Import_def)

lemma importInitKeys_all_ok:
  "\<forall>ki\<in>set kis. \<exists>a. Address E ki = Inr a \<Longrightarrow> importInitKeys E w kis = (None, w @ kis)"
proof (induction kis arbitrary: w)
  case Nil
  then show ?case by simp
next
  case (Cons ki kis)
  then obtain a where "Address E ki = Inr a" by auto
  with Cons show ?case by (simp add: Wallet_Import_Inr)
qed

lemma importInitKeys_append:
  "importInitKeys E w xs = (None, w') \<Longrightarrow> importInitKeys E w (xs @ ys) = importInitKeys E w' ys"
  by (induction xs arbitrary: w) (auto split: prod.splits sum.splits)

lemma importInitKeys_None:
  "importInitKeys E w kis = (None, w') \<Longrightarrow> w' = w @ kis \<and> (\<forall>ki\<in>set kis. \<exists>a. Address E ki = Inr a)"
proof (induction kis arbitrary: w)
  case Nil
  then show ?case by simp
next
  case (Cons ki kis)
  show ?case
  proof (cases "Address E ki")
    case (Inl e)
    with Cons.prems show ?thesis by (simp add: Wallet_Import_def)
  next
    case (Inr a)
    with Cons.prems have "importInitKeys E (w @ [ki]) kis = (None, w')"
      by (simp add: Wallet_Import_def)
    from Cons.IH [OF this] Inr show ?thesis by simp
  qed
qed

lemma Init_stages:
  assumes "chain_Init E r gen = (Inr g, r1)"
    and "initPeerKey E (Keystore r1) (peerKey (applyOpts opts)) = (None, ks)"
    and "NewDSBackendErr E (WalletDatastore r1) = None"
    and "initDefaultKey E (WalletDatastore r1) (defaultKey (applyOpts opts)) = (Inr dk, w1)"
    and "importInitKeys E w1 (initImports (applyOpts opts)) = (None, w2)"
    and "Address E dk = Inr a"
  shows "Init E r gen opts =
     (case ReplaceConfigErr E (Config r1\<lparr>Wallet := Wallet (Config r1)\<lparr>DefaultAddress := a\<rparr>\<rparr>) of
        Some e \<Rightarrow> (Some (Wrap e ''failed to write config''),
          r1\<lparr>Keystore := ks, WalletDatastore := w2,
             Config := Config r1\<lparr>Wallet := Wallet (Config r1)\<lparr>DefaultAddress := a\<rparr>\<rparr>\<rparr>)
      | None \<Rightarrow> (None,
          r1\<lparr>Keystore := ks, WalletDatastore := w2,
             Config := Config r1\<lparr>Wallet := Wallet (Config r1)\<lparr>DefaultAddress := a\<rparr>\<rparr>,
             PersistedConfig := Config r1\<lparr>Wallet := Wallet (Config r1)\<lparr>DefaultAddress := a\<rparr>\<rparr>\<rparr>))"
  using assms
  by (simp add: Init_def Let_def wallet_NewDSBackend_def wallet_New_def Repo_ReplaceConfig_def
      split: option.splits)

lemma Init_success:
  assumes "Init E r gen opts = (None, r')"
  shows "\<exists>g r1 ks dk w1 w2 a.
      chain_Init E r gen = (Inr g, r1)
    \<and> initPeerKey E (Keystore r1) (peerKey (applyOpts opts)) = (None, ks)
    \<and> NewDSBackendErr E (WalletDatastore r1) = None
    \<and> initDefaultKey E (WalletDatastore r1) (defaultKey (applyOpts opts)) = (Inr dk, w1)
    \<and> importInitKeys E w1 (initImports (applyOpts opts)) = (None, w2)
    \<and> Address E dk = Inr a
    \<and> ReplaceConfigErr E (Config r1\<lparr>Wallet := Wallet (Config r1)\<lparr>DefaultAddress := a\<rparr>\<rparr>) = None
    \<and> r' = r1\<lparr>Keystore := ks, WalletDatastore := w2,
             Config := Config r1\<lparr>Wallet := Wallet (Config r1)\<lparr>DefaultAddress := a\<rparr>\<rparr>,
             PersistedConfig := Config r1\<lparr>Wallet := Wallet (Config r1)\<lparr>DefaultAddress := a\<rparr>\<rparr>\<rparr>"
  using assms
  by (auto simp: Init_def Let_def wallet_NewDSBackend_def wallet_New_def Repo_ReplaceConfig_def
      split: prod.splits sum.splits option.splits)

lemma initPeerKey_None:
  assumes "initPeerKey E store key = (None, ks)"
  shows "\<exists>k. ks = store(''self'' \<mapsto> k) \<and> KeystorePutErr E ''self'' k = None \<and>
    (key = Some k \<or> key = None \<and> GenerateKeyPair E RSA 2048 = Inr k)"
  using assms
  by (auto simp: initPeerKey_def Keystore_Put_def defaultPeerKeyBits_def
      split: option.splits sum.splits)

lemma initDefaultKey_Inr:
  assumes "initDefaultKey E w key = (Inr dk, w1)"
  shows "w1 = w @ [dk] \<and> (\<exists>a. Address E dk = Inr a) \<and>
    (key = Some dk \<or> key = None \<and> NewKey E = Inr dk)"
  using assms
  by (auto simp: initDefaultKey_def Wallet_NewKeyInfo_def Wallet_Import_def
      split: option.splits sum.splits)

lemma applyOpts_snoc:
  "applyOpts (os @ [opt]) = opt (applyOpts os)"
  by (simp add: applyOpts_def)

lemma chain_Init_others:
  assumes "chain_Init E r gen = (res, r1)"
  shows "Keystore r1 = Keystore r" "WalletDatastore r1 = WalletDatastore r"
    "Config r1 = Config r" "PersistedConfig r1 = PersistedConfig r"
  using assms by (auto simp: chain_Init_def split: prod.splits sum.splits)









section \<open>The claims\<close>

subsection \<open>C1\<close>

text \<open>
  Claim C1. Let the repository be valid: its wallet datastore holds no record, the chain
  store accepts the genesis block, the key store accepts the write, the wallet backend
  opens and the configuration write succeeds. Let the genesis function succeed, and let the
  two key generators deliver (a peer key \<open>pk\<close> for RSA at 2048 bits, a key record \<open>ki\<close>
  with a derivable address \<open>a\<close>). Then \<open>Init\<close> with no options returns no error, the
  key store holds \<open>pk\<close> under \<open>''self''\<close> and is otherwise as before, the wallet holds
  exactly the record \<open>ki\<close>, and the default wallet address of the configuration, in
  memory and persisted, is \<open>a\<close>.
\<close>

theorem Init_no_options:
  assumes "WalletDatastore r = []"
    and "gen (Datastore r) = (Inr g, ds1)"
    and "PutGenesis E g ds1 = Inr ds2"
    and "GenerateKeyPair E RSA 2048 = Inr pk"
    and "KeystorePutErr E ''self'' pk = None"
    and "NewDSBackendErr E [] = None"
    and "NewKey E = Inr ki"
    and "Address E ki = Inr a"
    and "ReplaceConfigErr E (Config r\<lparr>Wallet := Wallet (Config r)\<lparr>DefaultAddress := a\<rparr>\<rparr>) = None"
  shows "fst (Init E r gen []) = None
    \<and> Keystore (snd (Init E r gen [])) ''self'' = Some pk
    \<and> Keystore (snd (Init E r gen [])) = (Keystore r)(''self'' \<mapsto> pk)
    \<and> WalletDatastore (snd (Init E r gen [])) = [ki]
    \<and> DefaultAddress (Wallet (Config (snd (Init E r gen [])))) = a
    \<and> DefaultAddress (Wallet (PersistedConfig (snd (Init E r gen [])))) = a"
proof -
  have c: "chain_Init E r gen = (Inr g, r\<lparr>Datastore := ds2\<rparr>)"
    using assms(2,3) by (rule chain_Init_Inr)
  have p: "initPeerKey E (Keystore (r\<lparr>Datastore := ds2\<rparr>)) (peerKey (applyOpts [])) =
      (None, (Keystore r)(''self'' \<mapsto> pk))"
    using assms(4,5)
    by (simp add: initPeerKey_def Keystore_Put_def defaultPeerKeyBits_def applyOpts_def
        new_initCfg_def)
  have d: "initDefaultKey E (WalletDatastore (r\<lparr>Datastore := ds2\<rparr>)) (defaultKey (applyOpts [])) =
      (Inr ki, [ki])"
    using assms(1,7,8)
    by (simp add: initDefaultKey_def Wallet_NewKeyInfo_def applyOpts_def new_initCfg_def)
  have i: "importInitKeys E [ki] (initImports (applyOpts [])) = (None, [ki])"
    by (simp add: applyOpts_def new_initCfg_def)
  have o: "NewDSBackendErr E (WalletDatastore (r\<lparr>Datastore := ds2\<rparr>)) = None"
    using assms(1,6) by simp
  from Init_stages [OF c p o d i assms(8)] assms(9) show ?thesis by simp
qed

theorem Init_no_options_witness:
  "sample_gen (Datastore sample_repo) = (Inr 1, [])
   \<and> GenerateKeyPair sample_env RSA 2048 = Inr 7
   \<and> NewKey sample_env = Inr 5
   \<and> Address sample_env 5 = Inr 105
   \<and> fst (Init sample_env sample_repo sample_gen []) = None
   \<and> Keystore (snd (Init sample_env sample_repo sample_gen [])) = [''self'' \<mapsto> 7]
   \<and> WalletDatastore (snd (Init sample_env sample_repo sample_gen [])) = [5]
   \<and> DefaultAddress (Wallet (Config (snd (Init sample_env sample_repo sample_gen [])))) = 105
   \<and> DefaultAddress (Wallet (PersistedConfig (snd (Init sample_env sample_repo sample_gen [])))) = 105"
proof -
  have h1: "WalletDatastore sample_repo = []"
    and h2: "sample_gen (Datastore sample_repo) = (Inr 1, [])"
    and h3: "PutGenesis sample_env 1 [] = Inr [1]"
    and h4: "GenerateKeyPair sample_env RSA 2048 = Inr 7"
    and h5: "KeystorePutErr sample_env ''self'' 7 = None"
    and h6: "NewDSBackendErr sample_env [] = None"
    and h7: "NewKey sample_env = Inr 5"
    and h8: "Address sample_env 5 = Inr 105"
    and h9: "ReplaceConfigErr sample_env
        (Config sample_repo\<lparr>Wallet := Wallet (Config sample_repo)\<lparr>DefaultAddress := 105\<rparr>\<rparr>) = None"
    by (simp_all add: sample_defs)
  have k: "Keystore sample_repo = Map.empty"
    by (simp add: sample_repo_def)
  from Init_no_options [where E = sample_env and r = sample_repo and gen = sample_gen,
      OF h1 h2 h3 h4 h5 h6 h7 h8 h9] h2 h4 h7 h8 k
  show ?thesis by simp
qed

subsection \<open>C2\<close>




subsection \<open>C3\<close>

text \<open>
  Claim C3. For every repository, and every genesis function that fails on its chain
  datastore with an error \<open>e\<close>, \<open>Init\<close> returns \<open>e\<close> wrapped with the message of the
  genesis stage, and the key store, the wallet datastore, the persisted configuration and
  the configuration in memory are as they were. No later stage runs: the outcome is the
  same for every behaviour of the collaborators and for every list of options.
\<close>

theorem Init_genesis_failure:
  assumes "fst (gen (Datastore r)) = Inl e"
  shows "fst (Init E r gen opts) = Some (Wrap e ''Could not Init Node'')
    \<and> Keystore (snd (Init E r gen opts)) = Keystore r
    \<and> WalletDatastore (snd (Init E r gen opts)) = WalletDatastore r
    \<and> PersistedConfig (snd (Init E r gen opts)) = PersistedConfig r
    \<and> Config (snd (Init E r gen opts)) = Config r
    \<and> Init E' r gen opts' = Init E r gen opts"
proof -
  have a: "Init E r gen opts =
      (Some (Wrap e ''Could not Init Node''), r\<lparr>Datastore := snd (gen (Datastore r))\<rparr>)"
    using chain_Init_Inl [where gen = gen and r = r and E = E, OF assms] by (simp add: Init_def)
  have b: "Init E' r gen opts' =
      (Some (Wrap e ''Could not Init Node''), r\<lparr>Datastore := snd (gen (Datastore r))\<rparr>)"
    using chain_Init_Inl [where gen = gen and r = r and E = E', OF assms] by (simp add: Init_def)
  from a b show ?thesis by simp
qed

theorem Init_genesis_failure_witness:
  "fst (failing_gen (Datastore sample_repo)) = Inl (Fail ''no genesis'')
   \<and> fst (Init sample_env sample_repo failing_gen [ImportKeyOpt 4]) =
       Some (Wrap (Fail ''no genesis'') ''Could not Init Node'')
   \<and> Keystore (snd (Init sample_env sample_repo failing_gen [ImportKeyOpt 4])) = Map.empty
   \<and> WalletDatastore (snd (Init sample_env sample_repo failing_gen [ImportKeyOpt 4])) = []
   \<and> PersistedConfig (snd (Init sample_env sample_repo failing_gen [ImportKeyOpt 4])) =
       \<lparr>Wallet = \<lparr>DefaultAddress = 0\<rparr>, Others = ''on disk''\<rparr>"
proof -
  have h: "fst (failing_gen (Datastore sample_repo)) = Inl (Fail ''no genesis'')"
    by (simp add: sample_defs)
  from Init_genesis_failure [where gen = failing_gen and r = sample_repo and E = sample_env
      and E' = sample_env and opts = "[ImportKeyOpt 4]" and opts' = "[]", OF h] h
  show ?thesis by (simp add: sample_repo_def)
qed

subsection \<open>C4\<close>

text \<open>
  Claim C4. \<open>importInitKeys\<close> imports in list order: when every record of a list can be
  imported, the wallet afterwards holds its former records followed by the list, in order,
  and no error is returned. When the records \<open>pre\<close> before a position can be imported
  and the record \<open>bad\<close> at that position is malformed, the error of \<open>bad\<close> is returned,
  the wallet holds its former records followed by \<open>pre\<close>, and the records \<open>post\<close> after
  the position have no effect on the outcome, whatever they are.
\<close>

theorem importInitKeys_stops_at_first_failure:
  assumes "\<forall>ki\<in>set pre. \<exists>a. Address E ki = Inr a"
  shows "importInitKeys E w pre = (None, w @ pre)
    \<and> (Address E bad = Inl e \<longrightarrow> importInitKeys E w (pre @ bad # post) = (Some e, w @ pre))"
proof -
  from importInitKeys_all_ok [OF assms] have ok: "importInitKeys E w pre = (None, w @ pre)" .
  from importInitKeys_append [OF ok]
  have "importInitKeys E w (pre @ bad # post) = importInitKeys E (w @ pre) (bad # post)" .
  then show ?thesis using ok by (simp add: Wallet_Import_def)
qed

theorem importInitKeys_stops_at_first_failure_witness:
  "importInitKeys sample_env [5] [4, 6] = (None, [5, 4, 6])
   \<and> importInitKeys sample_env [5] [4, 6, 0, 8] = (Some (Fail ''malformed key''), [5, 4, 6])"
proof -
  have h: "\<forall>ki\<in>set [4, 6]. \<exists>a. Address sample_env ki = Inr a"
    by (simp add: sample_env_def)
  have b: "Address sample_env 0 = Inl (Fail ''malformed key'')"
    by (simp add: sample_env_def)
  from importInitKeys_stops_at_first_failure [OF h, where w = "[5]" and bad = 0
      and e = "Fail ''malformed key''" and post = "[8]"] b
  show ?thesis by simp
qed

subsection \<open>C5\<close>

text \<open>
  Claim C5. For every call of \<open>initPeerKey\<close> and every content of the key store, also one
  that already holds an entry under \<open>''self''\<close>: a supplied key pair is written unchanged
  under the alias \<open>''self''\<close> and no key is generated (the result is the same whatever the
  generator would return); with no key pair supplied, the key that the generator returns for
  RSA at 2048 bits is written under \<open>''self''\<close>; the write replaces the entry that was
  there, and whether the call reports an error does not depend on what the store held, so
  no existence check takes place. The key size is the constant \<open>defaultPeerKeyBits = 2048\<close>.
  The write can only be missing when the generator or the key store reports an error.
\<close>

theorem initPeerKey_stores_self:
  "(KeystorePutErr E ''self'' k = None \<longrightarrow>
      initPeerKey E store (Some k) = (None, store(''self'' \<mapsto> k)))
   \<and> (GenerateKeyPair E RSA 2048 = Inr k \<and> KeystorePutErr E ''self'' k = None \<longrightarrow>
      initPeerKey E store None = (None, store(''self'' \<mapsto> k)))
   \<and> initPeerKey (E\<lparr>GenerateKeyPair := g\<rparr>) store (Some k) = initPeerKey E store (Some k)
   \<and> fst (initPeerKey E store key) = fst (initPeerKey E store' key)
   \<and> defaultPeerKeyBits = 2048"
  by (auto simp: initPeerKey_def Keystore_Put_def defaultPeerKeyBits_def
      split: option.splits sum.splits)

theorem initPeerKey_stores_self_witness:
  "KeystorePutErr sample_env ''self'' 9 = None
   \<and> initPeerKey sample_env [''self'' \<mapsto> 1] (Some 9) = (None, [''self'' \<mapsto> 9])
   \<and> GenerateKeyPair sample_env RSA 2048 = Inr 7
   \<and> initPeerKey sample_env [''self'' \<mapsto> 1] None = (None, [''self'' \<mapsto> 7])"
proof -
  have p: "KeystorePutErr sample_env ''self'' 9 = None"
    by (simp add: sample_env_def)
  have g: "GenerateKeyPair sample_env RSA 2048 = Inr 7 \<and> KeystorePutErr sample_env ''self'' 7 = None"
    by (simp add: sample_env_def)
  note supplied = initPeerKey_stores_self [where E = sample_env and k = 9
      and store = "[''self'' \<mapsto> 1]", THEN conjunct1, rule_format, OF p]
  note generated = initPeerKey_stores_self [where E = sample_env and k = 7
      and store = "[''self'' \<mapsto> 1]", THEN conjunct2, THEN conjunct1, rule_format, OF g]
  from p g supplied generated show ?thesis by simp
qed

subsection \<open>C6\<close>

text \<open>
  Claim C6. When the options supply the default key record \<open>dk\<close> and no additional
  imports, and \<open>Init\<close> succeeds, the wallet holds its former records followed by \<open>dk\<close>
  (so exactly \<open>dk\<close> when it was empty), the default-key step returns \<open>dk\<close> itself, the
  record is imported and not generated (the outcome is the same whatever the wallet's key
  generator would deliver), and the default wallet address of the configuration, in memory
  and persisted, is the address derived from \<open>dk\<close>.
\<close>

theorem Init_default_key_supplied:
  assumes "Init E r gen opts = (None, r')"
    and "defaultKey (applyOpts opts) = Some dk"
    and "initImports (applyOpts opts) = []"
  shows "WalletDatastore r' = WalletDatastore r @ [dk]
    \<and> (WalletDatastore r = [] \<longrightarrow> WalletDatastore r' = [dk])
    \<and> initDefaultKey E (WalletDatastore r) (Some dk) = (Inr dk, WalletDatastore r @ [dk])
    \<and> Address E dk = Inr (DefaultAddress (Wallet (Config r')))
    \<and> Address E dk = Inr (DefaultAddress (Wallet (PersistedConfig r')))
    \<and> Init (E\<lparr>NewKey := x\<rparr>) r gen opts = Init E r gen opts"
proof -
  from Init_success [OF assms(1)] obtain g r1 ks dk' w1 w2 a where
    c: "chain_Init E r gen = (Inr g, r1)" and
    d: "initDefaultKey E (WalletDatastore r1) (defaultKey (applyOpts opts)) = (Inr dk', w1)" and
    i: "importInitKeys E w1 (initImports (applyOpts opts)) = (None, w2)" and
    a: "Address E dk' = Inr a" and
    r': "r' = r1\<lparr>Keystore := ks, WalletDatastore := w2,
             Config := Config r1\<lparr>Wallet := Wallet (Config r1)\<lparr>DefaultAddress := a\<rparr>\<rparr>,
             PersistedConfig := Config r1\<lparr>Wallet := Wallet (Config r1)\<lparr>DefaultAddress := a\<rparr>\<rparr>\<rparr>"
    by blast
  note f = chain_Init_others [OF c]
  from initDefaultKey_Inr [OF d] assms(2) have dk: "dk' = dk" "w1 = WalletDatastore r @ [dk]"
    using f by auto
  from i assms(3) have w2: "w2 = w1" by simp
  have n: "Init (E\<lparr>NewKey := x\<rparr>) r gen opts = Init E r gen opts"
    using assms(2,3)
    by (simp add: Init_def Let_def chain_Init_def initPeerKey_def Keystore_Put_def
        wallet_NewDSBackend_def initDefaultKey_def Wallet_Import_def Repo_ReplaceConfig_def
        cong: prod.case_cong sum.case_cong option.case_cong)
  from d dk f a r' w2 assms(2) n show ?thesis by simp
qed

theorem Init_default_key_supplied_witness:
  "Init sample_env sample_repo sample_gen [DefaultKeyOpt (Some 3)] =
     (None, \<lparr>Datastore = [1], Keystore = [''self'' \<mapsto> 7], WalletDatastore = [3],
        Config = \<lparr>Wallet = \<lparr>DefaultAddress = 103\<rparr>, Others = ''edited''\<rparr>,
        PersistedConfig = \<lparr>Wallet = \<lparr>DefaultAddress = 103\<rparr>, Others = ''edited''\<rparr>\<rparr>)
   \<and> initDefaultKey sample_env [] (Some 3) = (Inr 3, [3])
   \<and> Address sample_env 3 = Inr 103"
proof -
  have h1: "Init sample_env sample_repo sample_gen [DefaultKeyOpt (Some 3)] =
     (None, \<lparr>Datastore = [1], Keystore = [''self'' \<mapsto> 7], WalletDatastore = [3],
        Config = \<lparr>Wallet = \<lparr>DefaultAddress = 103\<rparr>, Others = ''edited''\<rparr>,
        PersistedConfig = \<lparr>Wallet = \<lparr>DefaultAddress = 103\<rparr>, Others = ''edited''\<rparr>\<rparr>)"
    by (simp add: run_defs sample_defs)
  have h2: "defaultKey (applyOpts [DefaultKeyOpt (Some 3)] :: (nat, nat) initCfg) = Some 3"
    and h3: "initImports (applyOpts [DefaultKeyOpt (Some 3)] :: (nat, nat) initCfg) = []"
    by (simp_all add: run_defs)
  from Init_default_key_supplied [OF h1 h2 h3] h1 show ?thesis by (simp add: sample_repo_def)
qed

subsection \<open>C7\<close>

text \<open>
  Claim C7. The import list that the options build holds the records of the import
  options, in the order in which the options were given: the empty option list builds the
  empty import list, an import option adds its record at the end, and the two other options
  leave the list as it is. When this list holds \<open>N\<close> records, with distinct addresses,
  and \<open>Init\<close> succeeds, the wallet holds its former records, then the default key (the
  supplied one, or else the generated one), then the \<open>N\<close> records in that order: that is
  \<open>1 + N\<close> records when the wallet was empty, every imported record among them. In this
  model of the wallet an import adds a record whatever its address is; distinctness is
  assumed as the claim states it.
\<close>

theorem Init_imports_all:
  assumes "Init E r gen opts = (None, r')"
    and "distinct (map (Address E) (initImports (applyOpts opts)))"
  shows "(\<exists>dk. WalletDatastore r' = WalletDatastore r @ dk # initImports (applyOpts opts)
        \<and> (defaultKey (applyOpts opts) = Some dk
           \<or> defaultKey (applyOpts opts) = None \<and> NewKey E = Inr dk))
    \<and> length (WalletDatastore r') =
        length (WalletDatastore r) + 1 + length (initImports (applyOpts opts))
    \<and> (WalletDatastore r = [] \<longrightarrow>
        length (WalletDatastore r') = 1 + length (initImports (applyOpts opts)))
    \<and> set (initImports (applyOpts opts)) \<subseteq> set (WalletDatastore r')
    \<and> initImports (applyOpts (os @ [ImportKeyOpt ki])) = initImports (applyOpts os) @ [ki]
    \<and> initImports (applyOpts (os @ [PeerKeyOpt pk])) = initImports (applyOpts os)
    \<and> initImports (applyOpts (os @ [DefaultKeyOpt d])) = initImports (applyOpts os)
    \<and> initImports (applyOpts []) = []"
proof -
  from Init_success [OF assms(1)] obtain g r1 ks dk w1 w2 a where
    c: "chain_Init E r gen = (Inr g, r1)" and
    d: "initDefaultKey E (WalletDatastore r1) (defaultKey (applyOpts opts)) = (Inr dk, w1)" and
    i: "importInitKeys E w1 (initImports (applyOpts opts)) = (None, w2)" and
    r': "r' = r1\<lparr>Keystore := ks, WalletDatastore := w2,
             Config := Config r1\<lparr>Wallet := Wallet (Config r1)\<lparr>DefaultAddress := a\<rparr>\<rparr>,
             PersistedConfig := Config r1\<lparr>Wallet := Wallet (Config r1)\<lparr>DefaultAddress := a\<rparr>\<rparr>\<rparr>"
    by blast
  note f = chain_Init_others [OF c]
  from initDefaultKey_Inr [OF d] f
  have w1: "w1 = WalletDatastore r @ [dk]"
    and dk: "defaultKey (applyOpts opts) = Some dk
           \<or> defaultKey (applyOpts opts) = None \<and> NewKey E = Inr dk"
    by simp_all
  from importInitKeys_None [OF i] have "w2 = w1 @ initImports (applyOpts opts)" by simp
  with w1 r' have w: "WalletDatastore r' = WalletDatastore r @ dk # initImports (applyOpts opts)"
    by simp
  have o: "initImports (applyOpts (os @ [ImportKeyOpt ki])) = initImports (applyOpts os) @ [ki]"
    "initImports (applyOpts (os @ [PeerKeyOpt pk])) = initImports (applyOpts os)"
    "initImports (applyOpts (os @ [DefaultKeyOpt d])) = initImports (applyOpts os)"
    "initImports (applyOpts []) = []"
    by (simp_all add: applyOpts_snoc ImportKeyOpt_def PeerKeyOpt_def DefaultKeyOpt_def)
      (simp add: applyOpts_def new_initCfg_def)
  from w dk o show ?thesis by auto
qed

theorem Init_imports_all_witness:
  "fst (Init sample_env sample_repo sample_gen
      [ImportKeyOpt 4, DefaultKeyOpt (Some 3), ImportKeyOpt 6]) = None
   \<and> initImports (applyOpts [ImportKeyOpt 4, DefaultKeyOpt (Some 3), ImportKeyOpt 6] :: (nat, nat) initCfg) = [4, 6]
   \<and> distinct (map (Address sample_env) [4, 6])
   \<and> WalletDatastore (snd (Init sample_env sample_repo sample_gen
        [ImportKeyOpt 4, DefaultKeyOpt (Some 3), ImportKeyOpt 6])) = [3, 4, 6]
   \<and> length (WalletDatastore (snd (Init sample_env sample_repo sample_gen
        [ImportKeyOpt 4, DefaultKeyOpt (Some 3), ImportKeyOpt 6]))) = 1 + length [4, 6 :: nat]"
proof -
  have h1: "Init sample_env sample_repo sample_gen
      [ImportKeyOpt 4, DefaultKeyOpt (Some 3), ImportKeyOpt 6] =
     (None, \<lparr>Datastore = [1], Keystore = [''self'' \<mapsto> 7], WalletDatastore = [3, 4, 6],
        Config = \<lparr>Wallet = \<lparr>DefaultAddress = 103\<rparr>, Others = ''edited''\<rparr>,
        PersistedConfig = \<lparr>Wallet = \<lparr>DefaultAddress = 103\<rparr>, Others = ''edited''\<rparr>\<rparr>)"
    by (simp add: run_defs sample_defs)
  have h2: "initImports (applyOpts [ImportKeyOpt 4, DefaultKeyOpt (Some 3), ImportKeyOpt 6]
      :: (nat, nat) initCfg) = [4, 6]"
    by (simp add: run_defs)
  have h3: "distinct (map (Address sample_env)
      (initImports (applyOpts [ImportKeyOpt 4, DefaultKeyOpt (Some 3), ImportKeyOpt 6]
        :: (nat, nat) initCfg)))"
    by (simp add: h2 sample_env_def)
  from Init_imports_all [OF h1 h3] h1 h2 h3 show ?thesis by simp
qed

subsection \<open>C8\<close>

text \<open>
  Claim C8. After a successful \<open>Init\<close> the persisted configuration is the configuration
  object that was in memory at the time of the call with the default wallet address
  assigned and nothing else changed: all its other fields are those of the object in
  memory, whatever had been persisted before; the object in memory is the persisted one.
\<close>

theorem Init_config_commit:
  assumes "Init E r gen opts = (None, r')"
  shows "Others (PersistedConfig r') = Others (Config r)
    \<and> PersistedConfig r' = Config r\<lparr>Wallet := Wallet (Config r)\<lparr>DefaultAddress := DefaultAddress (Wallet (PersistedConfig r'))\<rparr>\<rparr>
    \<and> Config r' = PersistedConfig r'"
proof -
  from Init_success [OF assms] obtain g r1 ks dk w1 w2 a where
    c: "chain_Init E r gen = (Inr g, r1)" and
    r': "r' = r1\<lparr>Keystore := ks, WalletDatastore := w2,
             Config := Config r1\<lparr>Wallet := Wallet (Config r1)\<lparr>DefaultAddress := a\<rparr>\<rparr>,
             PersistedConfig := Config r1\<lparr>Wallet := Wallet (Config r1)\<lparr>DefaultAddress := a\<rparr>\<rparr>\<rparr>"
    by blast
  from chain_Init_others [OF c] r' show ?thesis by simp
qed

theorem Init_config_commit_witness:
  "fst (Init sample_env sample_repo sample_gen []) = None
   \<and> Others (Config sample_repo) = ''edited''
   \<and> Others (PersistedConfig sample_repo) = ''on disk''
   \<and> PersistedConfig (snd (Init sample_env sample_repo sample_gen [])) =
       \<lparr>Wallet = \<lparr>DefaultAddress = 105\<rparr>, Others = ''edited''\<rparr>"
proof -
  have h: "Init sample_env sample_repo sample_gen [] =
     (None, \<lparr>Datastore = [1], Keystore = [''self'' \<mapsto> 7], WalletDatastore = [5],
        Config = \<lparr>Wallet = \<lparr>DefaultAddress = 105\<rparr>, Others = ''edited''\<rparr>,
        PersistedConfig = \<lparr>Wallet = \<lparr>DefaultAddress = 105\<rparr>, Others = ''edited''\<rparr>\<rparr>)"
    by (simp add: run_defs sample_defs)
  from Init_config_commit [OF h] h show ?thesis by (simp add: sample_repo_def)
qed

subsection \<open>C9\<close>

text \<open>
  Claim C9. When genesis installation and the peer key stage have succeeded and opening
  the wallet backend fails with \<open>e\<close>, \<open>Init\<close> returns \<open>e\<close> wrapped with the message of
  the wallet-opening stage. The repository it leaves differs from the initial one in the
  chain datastore, which holds the installed genesis state, and in the key store, which
  holds an entry under \<open>''self''\<close>; the wallet datastore, the configuration in memory and
  the persisted configuration are as they were.
\<close>

theorem Init_wallet_open_failure:
  assumes "chain_Init E r gen = (Inr g, r1)"
    and "initPeerKey E (Keystore r) (peerKey (applyOpts opts)) = (None, ks)"
    and "NewDSBackendErr E (WalletDatastore r) = Some e"
  shows "Init E r gen opts =
      (Some (Wrap e ''failed to open wallet datastore''),
       r\<lparr>Datastore := Datastore r1, Keystore := ks\<rparr>)
    \<and> (\<exists>k. Keystore (snd (Init E r gen opts)) ''self'' = Some k)
    \<and> WalletDatastore (snd (Init E r gen opts)) = WalletDatastore r
    \<and> Config (snd (Init E r gen opts)) = Config r
    \<and> PersistedConfig (snd (Init E r gen opts)) = PersistedConfig r"
proof -
  from chain_Init_frame [OF assms(1)] have r1: "r1 = r\<lparr>Datastore := Datastore r1\<rparr>" .
  then have f: "Keystore r1 = Keystore r" "WalletDatastore r1 = WalletDatastore r"
    by (metis Repo.select_convs Repo.surjective Repo.update_convs)+
  from assms f have "Init E r gen opts =
      (Some (Wrap e ''failed to open wallet datastore''), r1\<lparr>Keystore := ks\<rparr>)"
    by (simp add: Init_def Let_def wallet_NewDSBackend_def)
  moreover from r1 have "r1\<lparr>Keystore := ks\<rparr> = r\<lparr>Datastore := Datastore r1, Keystore := ks\<rparr>"
    by (metis)
  moreover from initPeerKey_None [OF assms(2)] have "\<exists>k. ks ''self'' = Some k" by auto
  ultimately show ?thesis by simp
qed

theorem Init_wallet_open_failure_witness:
  "Init (sample_env\<lparr>NewDSBackendErr := \<lambda>ds. Some (Fail ''locked'')\<rparr>) sample_repo sample_gen [] =
     (Some (Wrap (Fail ''locked'') ''failed to open wallet datastore''),
      sample_repo\<lparr>Datastore := [1], Keystore := [''self'' \<mapsto> 7]\<rparr>)"
proof -
  let ?E = "sample_env\<lparr>NewDSBackendErr := \<lambda>ds. Some (Fail ''locked'')\<rparr>"
  have h1: "chain_Init ?E sample_repo sample_gen = (Inr 1, sample_repo\<lparr>Datastore := [1]\<rparr>)"
    by (simp add: chain_Init_def sample_defs)
  have h2: "initPeerKey ?E (Keystore sample_repo) (peerKey (applyOpts [])) = (None, [''self'' \<mapsto> 7])"
    by (simp add: initPeerKey_def Keystore_Put_def defaultPeerKeyBits_def applyOpts_def
        new_initCfg_def sample_defs)
  have h3: "NewDSBackendErr ?E (WalletDatastore sample_repo) = Some (Fail ''locked'')"
    by (simp add: sample_defs)
  from Init_wallet_open_failure [OF h1 h2 h3] show ?thesis by simp
qed

subsection \<open>C10\<close>

text \<open>
  Claim C10. When every stage before the configuration write succeeds and the write of the
  configuration fails with \<open>e\<close>, \<open>Init\<close> returns \<open>e\<close> wrapped with the message of that
  step; the configuration in memory carries the derived default address \<open>a\<close>, the
  persisted configuration is as it was, and the two differ whenever the persisted default
  address was not \<open>a\<close> already. Nothing undoes the assignment.
\<close>

theorem Init_config_write_failure:
  assumes "chain_Init E r gen = (Inr g, r1)"
    and "initPeerKey E (Keystore r) (peerKey (applyOpts opts)) = (None, ks)"
    and "NewDSBackendErr E (WalletDatastore r) = None"
    and "initDefaultKey E (WalletDatastore r) (defaultKey (applyOpts opts)) = (Inr dk, w1)"
    and "importInitKeys E w1 (initImports (applyOpts opts)) = (None, w2)"
    and "Address E dk = Inr a"
    and "ReplaceConfigErr E (Config r\<lparr>Wallet := Wallet (Config r)\<lparr>DefaultAddress := a\<rparr>\<rparr>) = Some e"
  shows "fst (Init E r gen opts) = Some (Wrap e ''failed to write config'')
    \<and> Config (snd (Init E r gen opts)) = Config r\<lparr>Wallet := Wallet (Config r)\<lparr>DefaultAddress := a\<rparr>\<rparr>
    \<and> DefaultAddress (Wallet (Config (snd (Init E r gen opts)))) = a
    \<and> PersistedConfig (snd (Init E r gen opts)) = PersistedConfig r
    \<and> (DefaultAddress (Wallet (PersistedConfig r)) \<noteq> a \<longrightarrow>
         Config (snd (Init E r gen opts)) \<noteq> PersistedConfig (snd (Init E r gen opts)))"
proof -
  note f = chain_Init_others [OF assms(1)]
  from assms f have "Init E r gen opts =
      (Some (Wrap e ''failed to write config''),
       r1\<lparr>Keystore := ks, WalletDatastore := w2,
          Config := Config r1\<lparr>Wallet := Wallet (Config r1)\<lparr>DefaultAddress := a\<rparr>\<rparr>\<rparr>)"
    using Init_stages [of E r gen g r1 opts ks dk w1 w2 a] by simp
  with f have res: "fst (Init E r gen opts) = Some (Wrap e ''failed to write config'')"
    "Config (snd (Init E r gen opts)) = Config r\<lparr>Wallet := Wallet (Config r)\<lparr>DefaultAddress := a\<rparr>\<rparr>"
    "PersistedConfig (snd (Init E r gen opts)) = PersistedConfig r"
    by simp_all
  have "Config (snd (Init E r gen opts)) \<noteq> PersistedConfig (snd (Init E r gen opts))"
    if "DefaultAddress (Wallet (PersistedConfig r)) \<noteq> a"
  proof
    assume "Config (snd (Init E r gen opts)) = PersistedConfig (snd (Init E r gen opts))"
    with res have "DefaultAddress (Wallet (PersistedConfig r)) =
        DefaultAddress (Wallet (Config r\<lparr>Wallet := Wallet (Config r)\<lparr>DefaultAddress := a\<rparr>\<rparr>))"
      by simp
    with that show False by simp
  qed
  with res show ?thesis by simp
qed

theorem Init_config_write_failure_witness:
  "fst (Init (sample_env\<lparr>ReplaceConfigErr := \<lambda>cfg. Some (Fail ''disk full'')\<rparr>) sample_repo sample_gen []) =
     Some (Wrap (Fail ''disk full'') ''failed to write config'')
   \<and> Config (snd (Init (sample_env\<lparr>ReplaceConfigErr := \<lambda>cfg. Some (Fail ''disk full'')\<rparr>)
        sample_repo sample_gen [])) = \<lparr>Wallet = \<lparr>DefaultAddress = 105\<rparr>, Others = ''edited''\<rparr>
   \<and> PersistedConfig (snd (Init (sample_env\<lparr>ReplaceConfigErr := \<lambda>cfg. Some (Fail ''disk full'')\<rparr>)
        sample_repo sample_gen [])) = \<lparr>Wallet = \<lparr>DefaultAddress = 0\<rparr>, Others = ''on disk''\<rparr>"
proof -
  let ?E = "sample_env\<lparr>ReplaceConfigErr := \<lambda>cfg. Some (Fail ''disk full'')\<rparr>"
  have h1: "chain_Init ?E sample_repo sample_gen = (Inr 1, sample_repo\<lparr>Datastore := [1]\<rparr>)"
    by (simp add: chain_Init_def sample_defs)
  have h2: "initPeerKey ?E (Keystore sample_repo) (peerKey (applyOpts [])) = (None, [''self'' \<mapsto> 7])"
    by (simp add: run_defs sample_defs)
  have h3: "NewDSBackendErr ?E (WalletDatastore sample_repo) = None"
    by (simp add: sample_defs)
  have h4: "initDefaultKey ?E (WalletDatastore sample_repo) (defaultKey (applyOpts [])) = (Inr 5, [5])"
    by (simp add: run_defs sample_defs)
  have h5: "importInitKeys ?E [5] (initImports (applyOpts [])) = (None, [5])"
    by (simp add: run_defs)
  have h6: "Address ?E 5 = Inr 105"
    by (simp add: sample_defs)
  have h7: "ReplaceConfigErr ?E
      (Config sample_repo\<lparr>Wallet := Wallet (Config sample_repo)\<lparr>DefaultAddress := 105\<rparr>\<rparr>) =
      Some (Fail ''disk full'')"
    by simp
  from Init_config_write_failure [OF h1 h2 h3 h4 h5 h6 h7] show ?thesis
    by (simp add: sample_repo_def)
qed

end
